theory Spec2Isabelle
  imports Main "HOL-Library.Word"
begin

section \<open>Node liveness records (package livenesspb)\<close>

text \<open>
  A shallow embedding of \<^verbatim>\<open>pkg/kv/kvserver/liveness/livenesspb/liveness.go\<close>.
  Go's fixed-width integers are words: \<^verbatim>\<open>int32\<close> is \<open>32 word\<close>, \<^verbatim>\<open>int64\<close> is
  \<open>64 word\<close>; both are signed in Go, so they are read with \<open>sint\<close> and compared through
  it, and \<open>+\<close> wraps around as Go's addition does.
\<close>

type_synonym int32 = "32 word"
type_synonym int64 = "64 word"

subsection \<open>Timestamps and durations\<close>

text \<open>
  Modelled from the spec: the package \<^verbatim>\<open>util/hlc\<close> (the types \<^verbatim>\<open>Timestamp\<close> and
  \<^verbatim>\<open>LegacyTimestamp\<close> and their methods \<^verbatim>\<open>Less\<close>, \<^verbatim>\<open>EqOrdering\<close>,
  \<^verbatim>\<open>ToTimestamp\<close>, \<^verbatim>\<open>AddDuration\<close>) is missing from the sources. The spec calls
  the expiration "a timestamp (logical+physical composite)" that is compared by "the
  timestamp's causal ordering (not wall-clock-only comparison)": a timestamp is a pair of
  a physical wall time in nanoseconds (an \<^verbatim>\<open>int64\<close>) and a logical counter (an
  \<^verbatim>\<open>int32\<close>), ordered lexicographically, wall time first.
\<close>

record Timestamp =
  WallTime :: int64
  Logical :: int32

text \<open>
  Modelled from the spec: \<^verbatim>\<open>LegacyTimestamp\<close> is the stored form of the same pair;
  \<^verbatim>\<open>ToTimestamp\<close> converts it field by field.
\<close>

type_synonym LegacyTimestamp = Timestamp

definition ToTimestamp :: "LegacyTimestamp \<Rightarrow> Timestamp" where
  "ToTimestamp t = \<lparr>WallTime = WallTime t, Logical = Logical t\<rparr>"

text \<open>
  Modelled from the spec: \<^verbatim>\<open>t.Less(s)\<close>, "strictly earlier" in the causal ordering.
\<close>

definition Less :: "Timestamp \<Rightarrow> Timestamp \<Rightarrow> bool" where
  "Less t s \<longleftrightarrow>
     sint (WallTime t) < sint (WallTime s)
     \<or> (WallTime t = WallTime s \<and> sint (Logical t) < sint (Logical s))"

text \<open>
  Modelled from the spec: \<^verbatim>\<open>t.EqOrdering(s)\<close>, the two timestamps sort equally.
\<close>

definition EqOrdering :: "Timestamp \<Rightarrow> Timestamp \<Rightarrow> bool" where
  "EqOrdering t s \<longleftrightarrow> WallTime t = WallTime s \<and> Logical t = Logical s"

text \<open>
  \<^verbatim>\<open>time.Duration\<close> of Go's standard library is an \<^verbatim>\<open>int64\<close> count of nanoseconds.
\<close>

type_synonym Duration = int64

text \<open>
  Modelled from the spec: \<^verbatim>\<open>t.AddDuration(d)\<close>, the spec's \<^verbatim>\<open>Expiration + threshold\<close>.
  The duration is added to the wall time, an \<^verbatim>\<open>int64\<close> addition that wraps around;
  the logical counter is kept.
\<close>

definition AddDuration :: "Timestamp \<Rightarrow> Duration \<Rightarrow> Timestamp" where
  "AddDuration t d = \<lparr>WallTime = WallTime t + d, Logical = Logical t\<rparr>"

subsection \<open>Membership status and the liveness record\<close>

text \<open>
  The declarations of \<^verbatim>\<open>MembershipStatus\<close> and \<^verbatim>\<open>Liveness\<close> are generated code
  that is missing from the sources. A generated enumeration is an \<^verbatim>\<open>int32\<close> with
  named constants; \<^verbatim>\<open>String\<close> below has a branch for every other value, so the type
  is the whole \<^verbatim>\<open>int32\<close>. Modelled from the spec: the three statuses are distinct and
  \<^verbatim>\<open>Active\<close> is the zero value, the status of a record when a node first joins.
\<close>

type_synonym MembershipStatus = int32

definition MembershipStatus_ACTIVE :: MembershipStatus where
  "MembershipStatus_ACTIVE = 0"

definition MembershipStatus_DECOMMISSIONING :: MembershipStatus where
  "MembershipStatus_DECOMMISSIONING = 1"

definition MembershipStatus_DECOMMISSIONED :: MembershipStatus where
  "MembershipStatus_DECOMMISSIONED = 2"

text \<open>
  The fields of the record are those of the spec's data model; \<^verbatim>\<open>roachpb.NodeID\<close> is
  an \<^verbatim>\<open>int32\<close> and the epoch an \<^verbatim>\<open>int64\<close>.
\<close>

record Liveness =
  NodeID :: int32
  Epoch :: int64
  Expiration :: LegacyTimestamp
  Draining :: bool
  Membership :: MembershipStatus

text \<open>\<^verbatim>\<open>Liveness{}\<close>, the zero value of the struct: every field is zero.\<close>

definition Liveness_zero :: Liveness where
  "Liveness_zero =
     \<lparr>NodeID = 0, Epoch = 0, Expiration = \<lparr>WallTime = 0, Logical = 0\<rparr>,
      Draining = False, Membership = 0\<rparr>"

subsection \<open>IsLive, IsDead, Compare\<close>

definition IsLive :: "Liveness \<Rightarrow> Timestamp \<Rightarrow> bool" where
  "IsLive l now = Less now (ToTimestamp (Expiration l))"

definition IsDead :: "Liveness \<Rightarrow> Timestamp \<Rightarrow> Duration \<Rightarrow> bool" where
  "IsDead l now threshold =
     (let expiration = AddDuration (ToTimestamp (Expiration l)) threshold
      in \<not> Less now expiration)"

definition Compare :: "Liveness \<Rightarrow> Liveness \<Rightarrow> int" where
  "Compare l o' =
     (if Epoch l \<noteq> Epoch o' then
        (if sint (Epoch l) < sint (Epoch o') then - 1 else 1)
      else if \<not> EqOrdering (Expiration l) (Expiration o') then
        (if Less (Expiration l) (Expiration o') then - 1 else 1)
      else 0)"

subsection \<open>Membership status: shorthands and rendering\<close>

definition Decommissioning :: "MembershipStatus \<Rightarrow> bool" where
  "Decommissioning c \<longleftrightarrow> c = MembershipStatus_DECOMMISSIONING"

definition Decommissioned :: "MembershipStatus \<Rightarrow> bool" where
  "Decommissioned c \<longleftrightarrow> c = MembershipStatus_DECOMMISSIONED"

definition Active :: "MembershipStatus \<Rightarrow> bool" where
  "Active c \<longleftrightarrow> c = MembershipStatus_ACTIVE"

text \<open>
  A panic is the left summand, carrying the value the code panics with; a normal return
  is the right summand.
\<close>

definition MembershipStatus_String :: "MembershipStatus \<Rightarrow> string + string" where
  "MembershipStatus_String c =
     (if c = MembershipStatus_ACTIVE then Inr ''active''
      else if c = MembershipStatus_DECOMMISSIONING then Inr ''decommissioning''
      else if c = MembershipStatus_DECOMMISSIONED then Inr ''decommissioned''
      else Inl (''unknown membership status, expected one of '' @
                ''[active,decommissioning,decommissioned]''))"

subsection \<open>Errors and formatting\<close>

text \<open>
  The two kinds of error that \<^verbatim>\<open>ValidateTransition\<close> builds:
  \<^verbatim>\<open>errors.AssertionFailedf\<close> gives an assertion failure with its message, and
  \<^verbatim>\<open>status.Error(code, msg)\<close> gives a status error with a gRPC code and a message.
\<close>

datatype Code = FailedPrecondition

datatype error = AssertionFailed string | StatusError Code string

text \<open>
  The verb \<^verbatim>\<open>%d\<close> of \<^verbatim>\<open>fmt.Sprintf\<close> on an \<^verbatim>\<open>int32\<close>: the decimal digits, with
  a minus sign before a negative number.
\<close>

fun decimal :: "nat \<Rightarrow> string" where
  "decimal n =
     (if n < 10 then [char_of (48 + n)]
      else decimal (n div 10) @ [char_of (48 + n mod 10)])"

declare decimal.simps [simp del]

definition Sprintf_d :: "int32 \<Rightarrow> string" where
  "Sprintf_d i =
     (if sint i < 0 then ''-'' @ decimal (nat (- sint i)) else decimal (nat (sint i)))"

subsection \<open>ValidateTransition\<close>

text \<open>
  The result is the pair \<^verbatim>\<open>(bool, error)\<close> of the Go function, \<open>None\<close> for a
  \<^verbatim>\<open>nil\<close> error; the call panics (left summand) when an error message renders a
  status that \<^verbatim>\<open>String\<close> does not know. The arguments of \<^verbatim>\<open>Sprintf\<close> are evaluated
  before it runs, so the panic comes before any error is built.
\<close>

definition ValidateTransition ::
  "Liveness \<Rightarrow> MembershipStatus \<Rightarrow> string + (bool \<times> error option)" where
  "ValidateTransition old newStatus =
     (if old = Liveness_zero then
        Inr (False, Some (AssertionFailed ''invalid old liveness record; found to be empty''))
      else if Membership old = newStatus then
        Inr (False, None)
      else if Decommissioned (Membership old) \<and> Decommissioning newStatus then
        Inr (False, None)
      else if Active newStatus \<and> \<not> Decommissioning (Membership old) then
        (case MembershipStatus_String (Membership old) of
           Inl p \<Rightarrow> Inl p
         | Inr s \<Rightarrow>
             Inr (False, Some (StatusError FailedPrecondition
               (''can only recommission a decommissioning node; n'' @
                Sprintf_d (NodeID old) @ '' found to be '' @ s))))
      else if Decommissioned newStatus \<and> \<not> Decommissioning (Membership old) then
        (case MembershipStatus_String (Membership old) of
           Inl p \<Rightarrow> Inl p
         | Inr s \<Rightarrow>
             Inr (False, Some (StatusError FailedPrecondition
               (''can only fully decommission an already decommissioning node; n'' @
                Sprintf_d (NodeID old) @ '' found to be '' @ s))))
      else Inr (True, None))"

subsection \<open>The liveness snapshot\<close>

text \<open>
  \<^verbatim>\<open>IsLiveMapEntry\<close> embeds a \<^verbatim>\<open>Liveness\<close> and adds the flag \<^verbatim>\<open>IsLive\<close>;
  \<^verbatim>\<open>IsLiveMap\<close> is a Go map from node ids to entries.
\<close>

record IsLiveMapEntry =
  EntryLiveness :: Liveness
  EntryIsLive :: bool

type_synonym IsLiveMap = "int32 \<rightharpoonup> IsLiveMapEntry"

text \<open>
  Modelled from the spec: the sources declare the two types only; no function of the
  sources builds an \<^verbatim>\<open>IsLiveMap\<close>. The spec's \<^verbatim>\<open>BuildIsLiveMap(records, now)\<close>
  "builds an IsLiveMap from a set of (NodeID, LivenessRecord) pairs and a single reference
  timestamp: for each record, compute IsLive(now) and store {record, isLive} keyed by node
  id", and "if an input record is malformed (fails the closed-enumeration check on
  Membership), the whole snapshot construction fails fatally". The pairs are visited in
  the order of a list, as a loop over them would; the fatal failure is \<open>None\<close>.
\<close>

definition recognized :: "MembershipStatus \<Rightarrow> bool" where
  "recognized c \<longleftrightarrow> Active c \<or> Decommissioning c \<or> Decommissioned c"

fun BuildIsLiveMap_loop ::
  "IsLiveMap \<Rightarrow> (int32 \<times> Liveness) list \<Rightarrow> Timestamp \<Rightarrow> IsLiveMap option" where
  "BuildIsLiveMap_loop m [] now = Some m"
| "BuildIsLiveMap_loop m ((nid, l) # records) now =
     (if recognized (Membership l) then
        BuildIsLiveMap_loop
          (m(nid \<mapsto> \<lparr>EntryLiveness = l, EntryIsLive = IsLive l now\<rparr>)) records now
      else None)"

definition BuildIsLiveMap :: "(int32 \<times> Liveness) list \<Rightarrow> Timestamp \<Rightarrow> IsLiveMap option" where
  "BuildIsLiveMap records now = BuildIsLiveMap_loop Map.empty records now"

section \<open>Ordering of liveness records\<close>

lemma sint_eq_iff: "sint a = sint b \<longleftrightarrow> a = b"
  by (auto intro: signed_word_eqI)

lemma Less_irrefl: "\<not> Less t t"
  by (simp add: Less_def)

lemma Less_asym: "Less t s \<Longrightarrow> \<not> Less s t"
  by (auto simp: Less_def)

lemma Less_trans: "Less t s \<Longrightarrow> Less s u \<Longrightarrow> Less t u"
  by (auto simp: Less_def)

lemma Less_total: "\<not> EqOrdering t s \<Longrightarrow> \<not> Less t s \<Longrightarrow> Less s t"
  using sint_eq_iff [of "WallTime t" "WallTime s"] sint_eq_iff [of "Logical t" "Logical s"]
  by (auto simp: Less_def EqOrdering_def)

text \<open>
  C1 (epoch dominance). Whenever the epoch of \<open>a\<close> is smaller than the epoch of \<open>b\<close>
  (as signed 64-bit integers), \<open>Compare a b\<close> is \<open>-1\<close> and \<open>Compare b a\<close> is \<open>+1\<close>,
  whatever the expirations and the other fields of the two records are.
\<close>

theorem Compare_epoch_dominance:
  "sint (Epoch a) < sint (Epoch b) \<Longrightarrow> Compare a b = - 1 \<and> Compare b a = 1"
  by (auto simp: Compare_def)

theorem Compare_epoch_dominance_witness:
  "sint (Epoch \<lparr>NodeID = 1, Epoch = 3, Expiration = \<lparr>WallTime = 900, Logical = 7\<rparr>,
                 Draining = False, Membership = 0\<rparr>)
     < sint (Epoch \<lparr>NodeID = 1, Epoch = 4, Expiration = \<lparr>WallTime = 100, Logical = 0\<rparr>,
                     Draining = True, Membership = 1\<rparr>)
   \<and> Compare \<lparr>NodeID = 1, Epoch = 3, Expiration = \<lparr>WallTime = 900, Logical = 7\<rparr>,
               Draining = False, Membership = 0\<rparr>
              \<lparr>NodeID = 1, Epoch = 4, Expiration = \<lparr>WallTime = 100, Logical = 0\<rparr>,
               Draining = True, Membership = 1\<rparr> = - 1
   \<and> Compare \<lparr>NodeID = 1, Epoch = 4, Expiration = \<lparr>WallTime = 100, Logical = 0\<rparr>,
               Draining = True, Membership = 1\<rparr>
              \<lparr>NodeID = 1, Epoch = 3, Expiration = \<lparr>WallTime = 900, Logical = 7\<rparr>,
               Draining = False, Membership = 0\<rparr> = 1"
  using Compare_epoch_dominance
    [of "\<lparr>NodeID = 1, Epoch = 3, Expiration = \<lparr>WallTime = 900, Logical = 7\<rparr>,
          Draining = False, Membership = 0\<rparr>"
        "\<lparr>NodeID = 1, Epoch = 4, Expiration = \<lparr>WallTime = 100, Logical = 0\<rparr>,
          Draining = True, Membership = 1\<rparr>"]
  by simp

text \<open>
  C2 (total order up to equivalence). \<open>Compare\<close> is reflexive (\<open>Compare a a = 0\<close>),
  antisymmetric (\<open>Compare a b = - Compare b a\<close>) and transitive (\<open>Compare a b \<le> 0\<close> and
  \<open>Compare b c \<le> 0\<close> give \<open>Compare a c \<le> 0\<close>), and two records that agree on epoch and
  expiration compare as \<open>0\<close> whatever their node ids, draining flags and membership
  statuses are.
\<close>

theorem Compare_total_order:
  "Compare a a = 0
   \<and> Compare a b = - Compare b a
   \<and> (Compare a b \<le> 0 \<and> Compare b c \<le> 0 \<longrightarrow> Compare a c \<le> 0)
   \<and> (Epoch a = Epoch b \<and> Expiration a = Expiration b \<longrightarrow> Compare a b = 0)"
proof (intro conjI impI)
  show "Compare a a = 0"
    by (simp add: Compare_def EqOrdering_def)
  show "Compare a b = - Compare b a"
    using Less_asym [of "Expiration a" "Expiration b"]
      Less_total [of "Expiration a" "Expiration b"]
      sint_eq_iff [of "Epoch a" "Epoch b"]
    by (auto simp: Compare_def EqOrdering_def)
  show "Compare a c \<le> 0" if "Compare a b \<le> 0 \<and> Compare b c \<le> 0"
  proof -
    have ab: "sint (Epoch a) < sint (Epoch b)
        \<or> (Epoch a = Epoch b
            \<and> (EqOrdering (Expiration a) (Expiration b) \<or> Less (Expiration a) (Expiration b)))"
      using that by (auto simp: Compare_def split: if_splits)
    have bc: "sint (Epoch b) < sint (Epoch c)
        \<or> (Epoch b = Epoch c
            \<and> (EqOrdering (Expiration b) (Expiration c) \<or> Less (Expiration b) (Expiration c)))"
      using that by (auto simp: Compare_def split: if_splits)
    from ab bc have "sint (Epoch a) < sint (Epoch c)
        \<or> (Epoch a = Epoch c
            \<and> (EqOrdering (Expiration a) (Expiration c) \<or> Less (Expiration a) (Expiration c)))"
      using Less_trans [of "Expiration a" "Expiration b" "Expiration c"]
      by (auto simp: EqOrdering_def Less_def)
    then show ?thesis
      by (auto simp: Compare_def)
  qed
  show "Compare a b = 0" if "Epoch a = Epoch b \<and> Expiration a = Expiration b"
    using that by (simp add: Compare_def EqOrdering_def)
qed

text \<open>
  The three records of the witness share the epoch; the first two also share the
  expiration and differ in node id, draining flag and membership status.
\<close>

theorem Compare_total_order_witness:
  "Compare \<lparr>NodeID = 1, Epoch = 2, Expiration = \<lparr>WallTime = 100, Logical = 0\<rparr>,
       Draining = False, Membership = 0\<rparr> \<lparr>NodeID = 2, Epoch = 2, Expiration = \<lparr>WallTime = 100, Logical = 0\<rparr>,
       Draining = True, Membership = 1\<rparr> \<le> 0
   \<and> Compare \<lparr>NodeID = 2, Epoch = 2, Expiration = \<lparr>WallTime = 100, Logical = 0\<rparr>,
       Draining = True, Membership = 1\<rparr> \<lparr>NodeID = 1, Epoch = 2, Expiration = \<lparr>WallTime = 100, Logical = 1\<rparr>,
       Draining = False, Membership = 0\<rparr> \<le> 0
   \<and> Compare \<lparr>NodeID = 1, Epoch = 2, Expiration = \<lparr>WallTime = 100, Logical = 0\<rparr>,
       Draining = False, Membership = 0\<rparr> \<lparr>NodeID = 1, Epoch = 2, Expiration = \<lparr>WallTime = 100, Logical = 1\<rparr>,
       Draining = False, Membership = 0\<rparr> \<le> 0
   \<and> Epoch \<lparr>NodeID = 1, Epoch = 2, Expiration = \<lparr>WallTime = 100, Logical = 0\<rparr>,
       Draining = False, Membership = 0\<rparr> = Epoch \<lparr>NodeID = 2, Epoch = 2, Expiration = \<lparr>WallTime = 100, Logical = 0\<rparr>,
       Draining = True, Membership = 1\<rparr>
   \<and> Expiration \<lparr>NodeID = 1, Epoch = 2, Expiration = \<lparr>WallTime = 100, Logical = 0\<rparr>,
       Draining = False, Membership = 0\<rparr> = Expiration \<lparr>NodeID = 2, Epoch = 2, Expiration = \<lparr>WallTime = 100, Logical = 0\<rparr>,
       Draining = True, Membership = 1\<rparr>
   \<and> Compare \<lparr>NodeID = 1, Epoch = 2, Expiration = \<lparr>WallTime = 100, Logical = 0\<rparr>,
       Draining = False, Membership = 0\<rparr> \<lparr>NodeID = 2, Epoch = 2, Expiration = \<lparr>WallTime = 100, Logical = 0\<rparr>,
       Draining = True, Membership = 1\<rparr> = 0
   \<and> Compare \<lparr>NodeID = 1, Epoch = 2, Expiration = \<lparr>WallTime = 100, Logical = 0\<rparr>,
       Draining = False, Membership = 0\<rparr> \<lparr>NodeID = 1, Epoch = 2, Expiration = \<lparr>WallTime = 100, Logical = 0\<rparr>,
       Draining = False, Membership = 0\<rparr> = 0
   \<and> Compare \<lparr>NodeID = 1, Epoch = 2, Expiration = \<lparr>WallTime = 100, Logical = 0\<rparr>,
       Draining = False, Membership = 0\<rparr> \<lparr>NodeID = 2, Epoch = 2, Expiration = \<lparr>WallTime = 100, Logical = 0\<rparr>,
       Draining = True, Membership = 1\<rparr> = - Compare \<lparr>NodeID = 2, Epoch = 2, Expiration = \<lparr>WallTime = 100, Logical = 0\<rparr>,
       Draining = True, Membership = 1\<rparr> \<lparr>NodeID = 1, Epoch = 2, Expiration = \<lparr>WallTime = 100, Logical = 0\<rparr>,
       Draining = False, Membership = 0\<rparr>"
  using Compare_total_order
    [of "\<lparr>NodeID = 1, Epoch = 2, Expiration = \<lparr>WallTime = 100, Logical = 0\<rparr>,
       Draining = False, Membership = 0\<rparr>" "\<lparr>NodeID = 2, Epoch = 2, Expiration = \<lparr>WallTime = 100, Logical = 0\<rparr>,
       Draining = True, Membership = 1\<rparr>" "\<lparr>NodeID = 1, Epoch = 2, Expiration = \<lparr>WallTime = 100, Logical = 1\<rparr>,
       Draining = False, Membership = 0\<rparr>"]
  by (simp add: Compare_def EqOrdering_def Less_def)

section \<open>Live, dead and the window between them\<close>

text \<open>
  C6 (IsLive). \<open>IsLive l now\<close> holds exactly when \<open>now\<close> is strictly earlier than the
  expiration of \<open>l\<close>: its wall time is smaller, or the wall times are equal and its
  logical counter is smaller. At the expiration itself the record is not live.
\<close>

theorem IsLive_iff_before_Expiration:
  "(IsLive l now \<longleftrightarrow>
      sint (WallTime now) < sint (WallTime (Expiration l))
      \<or> (sint (WallTime now) = sint (WallTime (Expiration l))
          \<and> sint (Logical now) < sint (Logical (Expiration l))))
   \<and> \<not> IsLive l (ToTimestamp (Expiration l))"
  by (auto simp: IsLive_def Less_def ToTimestamp_def sint_eq_iff)

lemma sint_add_no_overflow:
  fixes a d :: int64
  assumes "0 < sint d" and "sint a + sint d < 2 ^ 63"
  shows "sint (a + d) = sint a + sint d"
proof -
  have "- (2 ^ 63) \<le> sint a"
    using sint_ge [of a] by simp
  with assms have "- (2 ^ 63) \<le> sint a + sint d" and "sint a + sint d < 2 ^ 63"
    by simp_all
  then have "signed_take_bit 63 (sint a + sint d) = sint a + sint d"
    by (simp add: signed_take_bit_int_eq_self)
  then show ?thesis
    by (simp add: sint_word_add)
qed

text \<open>
  C7 (grace window), amended. Let \<open>E\<close> be the expiration of a record and \<open>T > 0\<close> a
  threshold such that the wall time of \<open>E\<close> plus \<open>T\<close> still fits an \<^verbatim>\<open>int64\<close>. Then
  \<open>IsDead l now T\<close> holds exactly when \<open>now\<close> is not earlier than \<open>E + T\<close>, the sum taken
  in the integers, and there is a timestamp \<open>now'\<close> (the expiration itself) with
  \<open>E \<le> now' < E + T\<close> at which the record is neither live nor dead.
\<close>

theorem IsDead_grace_window:
  assumes "0 < sint T" and "sint (WallTime (Expiration l)) + sint T < 2 ^ 63"
  shows "(IsDead l now T \<longleftrightarrow>
           \<not> (sint (WallTime now) < sint (WallTime (Expiration l)) + sint T
              \<or> (sint (WallTime now) = sint (WallTime (Expiration l)) + sint T
                  \<and> sint (Logical now) < sint (Logical (Expiration l)))))
         \<and> (\<exists>now'. \<not> Less now' (ToTimestamp (Expiration l))
                \<and> Less now' (AddDuration (ToTimestamp (Expiration l)) T)
                \<and> \<not> IsLive l now' \<and> \<not> IsDead l now' T)"
proof
  have sum: "sint (WallTime (Expiration l) + T) = sint (WallTime (Expiration l)) + sint T"
    using assms by (rule sint_add_no_overflow)
  show "IsDead l now T \<longleftrightarrow>
           \<not> (sint (WallTime now) < sint (WallTime (Expiration l)) + sint T
              \<or> (sint (WallTime now) = sint (WallTime (Expiration l)) + sint T
                  \<and> sint (Logical now) < sint (Logical (Expiration l))))"
    using sint_eq_iff [of "WallTime now" "WallTime (Expiration l) + T"]
    by (auto simp: IsDead_def Less_def AddDuration_def ToTimestamp_def sum)
  let ?E = "ToTimestamp (Expiration l)"
  have "\<not> Less ?E ?E"
    by (rule Less_irrefl)
  moreover have "Less ?E (AddDuration ?E T)"
    using assms(1) by (simp add: Less_def AddDuration_def ToTimestamp_def sum)
  ultimately have "\<not> Less ?E ?E \<and> Less ?E (AddDuration ?E T)
      \<and> \<not> IsLive l ?E \<and> \<not> IsDead l ?E T"
    by (simp add: IsLive_def IsDead_def)
  then show "\<exists>now'. \<not> Less now' ?E \<and> Less now' (AddDuration ?E T)
      \<and> \<not> IsLive l now' \<and> \<not> IsDead l now' T"
    by blast
qed

theorem IsDead_grace_window_witness:
  "0 < sint (5 :: int64)
   \<and> sint (WallTime (Expiration \<lparr>NodeID = 1, Epoch = 1,
         Expiration = \<lparr>WallTime = 100, Logical = 2\<rparr>, Draining = False, Membership = 0\<rparr>))
       + sint (5 :: int64) < 2 ^ 63
   \<and> \<not> IsDead \<lparr>NodeID = 1, Epoch = 1, Expiration = \<lparr>WallTime = 100, Logical = 2\<rparr>,
        Draining = False, Membership = 0\<rparr> \<lparr>WallTime = 105, Logical = 1\<rparr> 5
   \<and> (\<exists>now'. \<not> Less now' (ToTimestamp \<lparr>WallTime = 100, Logical = 2\<rparr>)
          \<and> Less now' (AddDuration (ToTimestamp \<lparr>WallTime = 100, Logical = 2\<rparr>) 5)
          \<and> \<not> IsLive \<lparr>NodeID = 1, Epoch = 1, Expiration = \<lparr>WallTime = 100, Logical = 2\<rparr>,
                Draining = False, Membership = 0\<rparr> now'
          \<and> \<not> IsDead \<lparr>NodeID = 1, Epoch = 1, Expiration = \<lparr>WallTime = 100, Logical = 2\<rparr>,
                Draining = False, Membership = 0\<rparr> now' 5)"
  using IsDead_grace_window
    [of 5 "\<lparr>NodeID = 1, Epoch = 1, Expiration = \<lparr>WallTime = 100, Logical = 2\<rparr>,
            Draining = False, Membership = 0\<rparr>" "\<lparr>WallTime = 105, Logical = 1\<rparr>"]
  by simp

text \<open>
  C7 as stated fails where the addition wraps around. With the largest wall time as
  expiration and a threshold of one nanosecond, \<open>E + T\<close> is the smallest wall time: the
  record is dead at its own expiration, and no timestamp at all finds it neither live nor
  dead.
\<close>

theorem IsDead_grace_window_counterexample:
  "0 < sint (1 :: int64)
   \<and> IsDead \<lparr>NodeID = 1, Epoch = 1,
        Expiration = \<lparr>WallTime = 0x7FFFFFFFFFFFFFFF, Logical = 0\<rparr>,
        Draining = False, Membership = 0\<rparr> \<lparr>WallTime = 0x7FFFFFFFFFFFFFFF, Logical = 0\<rparr> 1
   \<and> \<not> (\<exists>now.
          \<not> IsLive \<lparr>NodeID = 1, Epoch = 1,
              Expiration = \<lparr>WallTime = 0x7FFFFFFFFFFFFFFF, Logical = 0\<rparr>,
              Draining = False, Membership = 0\<rparr> now
          \<and> \<not> IsDead \<lparr>NodeID = 1, Epoch = 1,
              Expiration = \<lparr>WallTime = 0x7FFFFFFFFFFFFFFF, Logical = 0\<rparr>,
              Draining = False, Membership = 0\<rparr> now 1)"
proof (intro conjI notI)
  show "0 < sint (1 :: int64)"
    by simp
  show "IsDead \<lparr>NodeID = 1, Epoch = 1,
        Expiration = \<lparr>WallTime = 0x7FFFFFFFFFFFFFFF, Logical = 0\<rparr>,
        Draining = False, Membership = 0\<rparr> \<lparr>WallTime = 0x7FFFFFFFFFFFFFFF, Logical = 0\<rparr> 1"
    by (simp add: IsDead_def Less_def AddDuration_def ToTimestamp_def)
  assume "\<exists>now.
          \<not> IsLive \<lparr>NodeID = 1, Epoch = 1,
              Expiration = \<lparr>WallTime = 0x7FFFFFFFFFFFFFFF, Logical = 0\<rparr>,
              Draining = False, Membership = 0\<rparr> now
          \<and> \<not> IsDead \<lparr>NodeID = 1, Epoch = 1,
              Expiration = \<lparr>WallTime = 0x7FFFFFFFFFFFFFFF, Logical = 0\<rparr>,
              Draining = False, Membership = 0\<rparr> now 1"
  then obtain now where
    live: "\<not> Less now \<lparr>WallTime = 0x7FFFFFFFFFFFFFFF, Logical = 0\<rparr>" and
    dead: "Less now \<lparr>WallTime = 0x7FFFFFFFFFFFFFFF + 1, Logical = 0\<rparr>"
    by (auto simp: IsLive_def IsDead_def AddDuration_def ToTimestamp_def)
  have lo: "- (2 ^ 63) \<le> sint (WallTime now)"
    using sint_ge [of "WallTime now"] by simp
  from dead lo have "WallTime now = 0x7FFFFFFFFFFFFFFF + 1"
    by (auto simp: Less_def)
  then have "sint (WallTime now) < sint (0x7FFFFFFFFFFFFFFF :: int64)"
    by simp
  with live show False
    by (simp add: Less_def)
qed

section \<open>The membership state machine\<close>

lemmas status_defs =
  MembershipStatus_ACTIVE_def MembershipStatus_DECOMMISSIONING_def
  MembershipStatus_DECOMMISSIONED_def Active_def Decommissioning_def Decommissioned_def

lemma recognized_iff:
  "recognized c \<longleftrightarrow>
     c = MembershipStatus_ACTIVE \<or> c = MembershipStatus_DECOMMISSIONING
     \<or> c = MembershipStatus_DECOMMISSIONED"
  by (simp add: recognized_def Active_def Decommissioning_def Decommissioned_def)

lemma Liveness_zero_iff:
  "old = Liveness_zero \<longleftrightarrow>
     NodeID old = 0 \<and> Epoch old = 0 \<and> Expiration old = \<lparr>WallTime = 0, Logical = 0\<rparr>
     \<and> \<not> Draining old \<and> Membership old = MembershipStatus_ACTIVE"
  by (cases old) (auto simp: Liveness_zero_def MembershipStatus_ACTIVE_def)

text \<open>
  C3 (recommission gating). Let \<open>old\<close> be a non-empty record. If the new status is
  active and the status of \<open>old\<close> is not decommissioning (so, equal statuses being a
  no-op and the status being one of the three of the enumeration, it is decommissioned),
  \<open>ValidateTransition\<close> returns \<open>false\<close> with a failed-precondition error whose message
  carries the node id and the current status. If the status of \<open>old\<close> is decommissioning
  and the new status is active, it returns \<open>(true, nil)\<close>.
\<close>

theorem ValidateTransition_recommission:
  assumes "old \<noteq> Liveness_zero"
  shows "(Active newStatus \<and> \<not> Decommissioning (Membership old)
            \<and> Membership old \<noteq> newStatus \<and> recognized (Membership old) \<longrightarrow>
          Membership old = MembershipStatus_DECOMMISSIONED
          \<and> ValidateTransition old newStatus =
              Inr (False, Some (StatusError FailedPrecondition
                (''can only recommission a decommissioning node; n'' @
                 Sprintf_d (NodeID old) @ '' found to be decommissioned''))))
         \<and> (Active newStatus \<and> Decommissioning (Membership old) \<longrightarrow>
              ValidateTransition old newStatus = Inr (True, None))"
  using assms
  by (auto simp: ValidateTransition_def MembershipStatus_String_def recognized_iff status_defs)

theorem ValidateTransition_recommission_witness:
  "\<lparr>NodeID = 7, Epoch = 3, Expiration = \<lparr>WallTime = 500, Logical = 0\<rparr>,
       Draining = False, Membership = MembershipStatus_DECOMMISSIONED\<rparr> \<noteq> Liveness_zero
   \<and> Active MembershipStatus_ACTIVE
   \<and> \<not> Decommissioning MembershipStatus_DECOMMISSIONED
   \<and> MembershipStatus_DECOMMISSIONED \<noteq> MembershipStatus_ACTIVE
   \<and> recognized MembershipStatus_DECOMMISSIONED
   \<and> ValidateTransition
        \<lparr>NodeID = 7, Epoch = 3, Expiration = \<lparr>WallTime = 500, Logical = 0\<rparr>,
       Draining = False, Membership = MembershipStatus_DECOMMISSIONED\<rparr>
        MembershipStatus_ACTIVE =
      Inr (False, Some (StatusError FailedPrecondition
        ''can only recommission a decommissioning node; n7 found to be decommissioned''))
   \<and> \<lparr>NodeID = 7, Epoch = 3, Expiration = \<lparr>WallTime = 500, Logical = 0\<rparr>,
       Draining = False, Membership = MembershipStatus_DECOMMISSIONING\<rparr> \<noteq> Liveness_zero
   \<and> Decommissioning MembershipStatus_DECOMMISSIONING
   \<and> ValidateTransition
        \<lparr>NodeID = 7, Epoch = 3, Expiration = \<lparr>WallTime = 500, Logical = 0\<rparr>,
       Draining = False, Membership = MembershipStatus_DECOMMISSIONING\<rparr>
        MembershipStatus_ACTIVE = Inr (True, None)"
proof -
  have d: "Sprintf_d 7 = ''7''"
    by code_simp
  have h1: "\<lparr>NodeID = 7, Epoch = 3, Expiration = \<lparr>WallTime = 500, Logical = 0\<rparr>,
       Draining = False, Membership = MembershipStatus_DECOMMISSIONED\<rparr> \<noteq> Liveness_zero"
    by (simp add: Liveness_zero_def)
  have h2: "\<lparr>NodeID = 7, Epoch = 3, Expiration = \<lparr>WallTime = 500, Logical = 0\<rparr>,
       Draining = False, Membership = MembershipStatus_DECOMMISSIONING\<rparr> \<noteq> Liveness_zero"
    by (simp add: Liveness_zero_def)
  show ?thesis
    using ValidateTransition_recommission [OF h1, of MembershipStatus_ACTIVE]
      ValidateTransition_recommission [OF h2, of MembershipStatus_ACTIVE] h1 h2 d
    by (simp add: recognized_iff status_defs)
qed

text \<open>
  C4 (forward path and skip-level rejection), amended. Let \<open>old\<close> be a non-empty record.
  From active, the new status decommissioning is accepted with \<open>(true, nil)\<close>; from
  decommissioning, the new status decommissioned is accepted with \<open>(true, nil)\<close>; and
  from active, the new status decommissioned is rejected: \<open>false\<close> with a
  failed-precondition error that carries the node id and the status.
\<close>

theorem ValidateTransition_forward_path:
  assumes "old \<noteq> Liveness_zero"
  shows "(Membership old = MembershipStatus_ACTIVE \<longrightarrow>
            ValidateTransition old MembershipStatus_DECOMMISSIONING = Inr (True, None))
         \<and> (Membership old = MembershipStatus_DECOMMISSIONING \<longrightarrow>
            ValidateTransition old MembershipStatus_DECOMMISSIONED = Inr (True, None))
         \<and> (Membership old = MembershipStatus_ACTIVE \<longrightarrow>
            ValidateTransition old MembershipStatus_DECOMMISSIONED =
              Inr (False, Some (StatusError FailedPrecondition
                (''can only fully decommission an already decommissioning node; n'' @
                 Sprintf_d (NodeID old) @ '' found to be active''))))"
  using assms
  by (auto simp: ValidateTransition_def MembershipStatus_String_def status_defs)

theorem ValidateTransition_forward_path_witness:
  "\<lparr>NodeID = 7, Epoch = 3, Expiration = \<lparr>WallTime = 500, Logical = 0\<rparr>,
       Draining = False, Membership = MembershipStatus_ACTIVE\<rparr> \<noteq> Liveness_zero
   \<and> ValidateTransition
        \<lparr>NodeID = 7, Epoch = 3, Expiration = \<lparr>WallTime = 500, Logical = 0\<rparr>,
       Draining = False, Membership = MembershipStatus_ACTIVE\<rparr>
        MembershipStatus_DECOMMISSIONING = Inr (True, None)
   \<and> \<lparr>NodeID = 7, Epoch = 3, Expiration = \<lparr>WallTime = 500, Logical = 0\<rparr>,
       Draining = False, Membership = MembershipStatus_DECOMMISSIONING\<rparr> \<noteq> Liveness_zero
   \<and> ValidateTransition
        \<lparr>NodeID = 7, Epoch = 3, Expiration = \<lparr>WallTime = 500, Logical = 0\<rparr>,
       Draining = False, Membership = MembershipStatus_DECOMMISSIONING\<rparr>
        MembershipStatus_DECOMMISSIONED = Inr (True, None)
   \<and> ValidateTransition
        \<lparr>NodeID = 7, Epoch = 3, Expiration = \<lparr>WallTime = 500, Logical = 0\<rparr>,
       Draining = False, Membership = MembershipStatus_ACTIVE\<rparr>
        MembershipStatus_DECOMMISSIONED =
      Inr (False, Some (StatusError FailedPrecondition
        ''can only fully decommission an already decommissioning node; n7 found to be active''))"
proof -
  have d: "Sprintf_d 7 = ''7''"
    by code_simp
  have h1: "\<lparr>NodeID = 7, Epoch = 3, Expiration = \<lparr>WallTime = 500, Logical = 0\<rparr>,
       Draining = False, Membership = MembershipStatus_ACTIVE\<rparr> \<noteq> Liveness_zero"
    by (simp add: Liveness_zero_def)
  have h2: "\<lparr>NodeID = 7, Epoch = 3, Expiration = \<lparr>WallTime = 500, Logical = 0\<rparr>,
       Draining = False, Membership = MembershipStatus_DECOMMISSIONING\<rparr> \<noteq> Liveness_zero"
    by (simp add: Liveness_zero_def)
  show ?thesis
    using ValidateTransition_forward_path [OF h1] ValidateTransition_forward_path [OF h2] h1 h2 d
    by simp
qed

text \<open>
  C4 as stated fails for a record that is already decommissioned: its status is not
  decommissioning, yet the new status decommissioned is the same status, a no-op that
  returns \<open>(false, nil)\<close> and no error.
\<close>

theorem ValidateTransition_forward_path_counterexample:
  "\<lparr>NodeID = 7, Epoch = 3, Expiration = \<lparr>WallTime = 500, Logical = 0\<rparr>,
       Draining = False, Membership = MembershipStatus_DECOMMISSIONED\<rparr> \<noteq> Liveness_zero
   \<and> \<not> Decommissioning (Membership
        \<lparr>NodeID = 7, Epoch = 3, Expiration = \<lparr>WallTime = 500, Logical = 0\<rparr>,
       Draining = False, Membership = MembershipStatus_DECOMMISSIONED\<rparr>)
   \<and> ValidateTransition
        \<lparr>NodeID = 7, Epoch = 3, Expiration = \<lparr>WallTime = 500, Logical = 0\<rparr>,
       Draining = False, Membership = MembershipStatus_DECOMMISSIONED\<rparr>
        MembershipStatus_DECOMMISSIONED = Inr (False, None)"
  by (simp add: ValidateTransition_def Liveness_zero_def status_defs)

text \<open>
  C5 (no-op transitions). For a non-empty record \<open>old\<close>, the new status equal to the
  status of \<open>old\<close> gives \<open>(false, nil)\<close>, whatever that status is, and so does the new
  status decommissioning when \<open>old\<close> is decommissioned.
\<close>

theorem ValidateTransition_noop:
  assumes "old \<noteq> Liveness_zero"
  shows "ValidateTransition old (Membership old) = Inr (False, None)
         \<and> (Decommissioned (Membership old) \<and> Decommissioning newStatus \<longrightarrow>
              ValidateTransition old newStatus = Inr (False, None))"
  using assms
  by (auto simp: ValidateTransition_def)

theorem ValidateTransition_noop_witness:
  "\<lparr>NodeID = 7, Epoch = 3, Expiration = \<lparr>WallTime = 500, Logical = 0\<rparr>,
       Draining = False, Membership = MembershipStatus_DECOMMISSIONED\<rparr> \<noteq> Liveness_zero
   \<and> ValidateTransition
        \<lparr>NodeID = 7, Epoch = 3, Expiration = \<lparr>WallTime = 500, Logical = 0\<rparr>,
       Draining = False, Membership = MembershipStatus_DECOMMISSIONED\<rparr>
        MembershipStatus_DECOMMISSIONED = Inr (False, None)
   \<and> Decommissioned MembershipStatus_DECOMMISSIONED
   \<and> Decommissioning MembershipStatus_DECOMMISSIONING
   \<and> ValidateTransition
        \<lparr>NodeID = 7, Epoch = 3, Expiration = \<lparr>WallTime = 500, Logical = 0\<rparr>,
       Draining = False, Membership = MembershipStatus_DECOMMISSIONED\<rparr>
        MembershipStatus_DECOMMISSIONING = Inr (False, None)"
proof -
  have h: "\<lparr>NodeID = 7, Epoch = 3, Expiration = \<lparr>WallTime = 500, Logical = 0\<rparr>,
       Draining = False, Membership = MembershipStatus_DECOMMISSIONED\<rparr> \<noteq> Liveness_zero"
    by (simp add: Liveness_zero_def)
  show ?thesis
    using ValidateTransition_noop [OF h, of MembershipStatus_DECOMMISSIONING] h
    by (simp add: status_defs)
qed

text \<open>
  C8 (empty-record guard). For the empty record and every new status,
  \<open>ValidateTransition\<close> returns \<open>false\<close> with an assertion-failure error, which is of
  another kind than every status error, the failed-precondition ones included.
\<close>

theorem ValidateTransition_empty:
  "ValidateTransition Liveness_zero newStatus =
     Inr (False, Some (AssertionFailed ''invalid old liveness record; found to be empty''))
   \<and> AssertionFailed ''invalid old liveness record; found to be empty'' \<noteq> StatusError c msg"
  by (simp add: ValidateTransition_def)

text \<open>
  C10 (what counts as empty), amended. \<open>ValidateTransition\<close> returns an assertion failure
  exactly when the node id, the epoch, both components of the expiration, the draining
  flag and the membership status of \<open>old\<close> are all zero (the zero status is active): a
  record with node id 0, epoch 0, status active, not draining and a zero expiration is
  the empty record and is rejected, and a record that differs from zero in at least one
  field, the node id included, passes the emptiness check.
\<close>

theorem assertion_failure_iff_zero:
  "((\<exists>changed msg.
        ValidateTransition old newStatus = Inr (changed, Some (AssertionFailed msg)))
      \<longleftrightarrow> NodeID old = 0 \<and> Epoch old = 0 \<and> Expiration old = \<lparr>WallTime = 0, Logical = 0\<rparr>
           \<and> \<not> Draining old \<and> Membership old = MembershipStatus_ACTIVE)
   \<and> (ValidateTransition old newStatus =
        Inr (False, Some (AssertionFailed ''invalid old liveness record; found to be empty''))
      \<longleftrightarrow> NodeID old = 0 \<and> Epoch old = 0 \<and> Expiration old = \<lparr>WallTime = 0, Logical = 0\<rparr>
           \<and> \<not> Draining old \<and> Membership old = MembershipStatus_ACTIVE)"
proof -
  have "old = Liveness_zero"
    if "ValidateTransition old newStatus = Inr (changed, Some (AssertionFailed msg))"
    for changed msg
    using that
    by (auto simp: ValidateTransition_def split: if_splits sum.splits)
  moreover have "ValidateTransition old newStatus =
        Inr (False, Some (AssertionFailed ''invalid old liveness record; found to be empty''))"
    if "old = Liveness_zero"
    using that by (simp add: ValidateTransition_def)
  ultimately show ?thesis
    unfolding Liveness_zero_iff [symmetric] by blast
qed

text \<open>
  C10 as stated fails for the record of a node that has just joined with node id 1: its
  epoch is 0, it is active and not draining and its expiration is zero, but it is not the
  empty record, and decommissioning it is accepted.
\<close>

theorem assertion_failure_iff_zero_counterexample:
  "Epoch \<lparr>NodeID = 1, Epoch = 0, Expiration = \<lparr>WallTime = 0, Logical = 0\<rparr>,
       Draining = False, Membership = MembershipStatus_ACTIVE\<rparr> = 0
   \<and> Membership \<lparr>NodeID = 1, Epoch = 0, Expiration = \<lparr>WallTime = 0, Logical = 0\<rparr>,
       Draining = False, Membership = MembershipStatus_ACTIVE\<rparr> = MembershipStatus_ACTIVE
   \<and> \<not> Draining \<lparr>NodeID = 1, Epoch = 0, Expiration = \<lparr>WallTime = 0, Logical = 0\<rparr>,
       Draining = False, Membership = MembershipStatus_ACTIVE\<rparr>
   \<and> Expiration \<lparr>NodeID = 1, Epoch = 0, Expiration = \<lparr>WallTime = 0, Logical = 0\<rparr>,
       Draining = False, Membership = MembershipStatus_ACTIVE\<rparr> = \<lparr>WallTime = 0, Logical = 0\<rparr>
   \<and> \<lparr>NodeID = 1, Epoch = 0, Expiration = \<lparr>WallTime = 0, Logical = 0\<rparr>,
       Draining = False, Membership = MembershipStatus_ACTIVE\<rparr> \<noteq> Liveness_zero
   \<and> ValidateTransition
        \<lparr>NodeID = 1, Epoch = 0, Expiration = \<lparr>WallTime = 0, Logical = 0\<rparr>,
       Draining = False, Membership = MembershipStatus_ACTIVE\<rparr>
        MembershipStatus_DECOMMISSIONING = Inr (True, None)"
  by (simp add: ValidateTransition_def Liveness_zero_def status_defs)

section \<open>The liveness snapshot\<close>

lemma BuildIsLiveMap_loop_None:
  "\<not> list_all (\<lambda>(nid, l). recognized (Membership l)) records \<Longrightarrow>
   BuildIsLiveMap_loop m records now = None"
  by (induction records arbitrary: m) auto

lemma BuildIsLiveMap_loop_Some:
  "distinct (map fst records) \<Longrightarrow>
   list_all (\<lambda>(nid, l). recognized (Membership l)) records \<Longrightarrow>
   BuildIsLiveMap_loop m records now =
     Some (\<lambda>nid. case map_of records nid of
                    None \<Rightarrow> m nid
                  | Some l \<Rightarrow> Some \<lparr>EntryLiveness = l, EntryIsLive = IsLive l now\<rparr>)"
proof (induction records arbitrary: m)
  case Nil
  then show ?case by simp
next
  case (Cons p records)
  obtain nid l where p: "p = (nid, l)"
    by (cases p)
  from Cons.prems p have fresh: "map_of records nid = None"
    by (simp add: map_of_eq_None_iff)
  from Cons.prems p have rest: "distinct (map fst records)"
    "list_all (\<lambda>(nid, l). recognized (Membership l)) records"
    and ok: "recognized (Membership l)"
    by simp_all
  have "BuildIsLiveMap_loop m (p # records) now =
      BuildIsLiveMap_loop
        (m(nid \<mapsto> \<lparr>EntryLiveness = l, EntryIsLive = IsLive l now\<rparr>)) records now"
    using ok p by simp
  also have "\<dots> = Some (\<lambda>k. case map_of records k of
                    None \<Rightarrow> (m(nid \<mapsto> \<lparr>EntryLiveness = l, EntryIsLive = IsLive l now\<rparr>)) k
                  | Some l \<Rightarrow> Some \<lparr>EntryLiveness = l, EntryIsLive = IsLive l now\<rparr>)"
    using rest by (rule Cons.IH)
  also have "\<dots> = Some (\<lambda>k. case map_of (p # records) k of
                    None \<Rightarrow> m k
                  | Some l \<Rightarrow> Some \<lparr>EntryLiveness = l, EntryIsLive = IsLive l now\<rparr>)"
    using fresh p by (auto simp: fun_eq_iff split: option.splits)
  finally show ?case .
qed

lemma BuildIsLiveMap_eq:
  assumes "distinct (map fst records)"
  shows "BuildIsLiveMap records now =
           (if list_all (\<lambda>(nid, l). recognized (Membership l)) records
            then Some (\<lambda>nid. map_option
                   (\<lambda>l. \<lparr>EntryLiveness = l, EntryIsLive = IsLive l now\<rparr>)
                   (map_of records nid))
            else None)"
proof (cases "list_all (\<lambda>(nid, l). recognized (Membership l)) records")
  case True
  have "(\<lambda>nid. case map_of records nid of
            None \<Rightarrow> Map.empty nid
          | Some l \<Rightarrow> Some \<lparr>EntryLiveness = l, EntryIsLive = IsLive l now\<rparr>) =
        (\<lambda>nid. map_option
            (\<lambda>l. \<lparr>EntryLiveness = l, EntryIsLive = IsLive l now\<rparr>) (map_of records nid))"
    by (auto simp: fun_eq_iff split: option.splits)
  with True assms show ?thesis
    by (simp add: BuildIsLiveMap_def BuildIsLiveMap_loop_Some)
next
  case False
  then show ?thesis
    by (simp add: BuildIsLiveMap_def BuildIsLiveMap_loop_None)
qed

text \<open>
  C9 (snapshot determinism). The snapshot depends on the set of pairs only, not on the
  order in which they are visited: for two lists \<open>xs\<close> and \<open>ys\<close> of the same pairs, each
  with one record per node id, and the same \<open>now\<close>, \<open>BuildIsLiveMap\<close> gives the same
  result. When every record has a status of the enumeration, the result maps each node
  id of the input to its record paired with \<open>IsLive l now\<close> and no other node id;
  otherwise the construction fails.
\<close>

theorem BuildIsLiveMap_deterministic:
  assumes "distinct (map fst xs)" and "distinct (map fst ys)" and "set xs = set ys"
  shows "BuildIsLiveMap xs now = BuildIsLiveMap ys now
         \<and> BuildIsLiveMap xs now =
             (if list_all (\<lambda>(nid, l). recognized (Membership l)) xs
              then Some (\<lambda>nid. map_option
                     (\<lambda>l. \<lparr>EntryLiveness = l, EntryIsLive = IsLive l now\<rparr>)
                     (map_of xs nid))
              else None)"
proof -
  have maps: "map_of xs = map_of ys"
    using assms by (simp add: map_of_inject_set)
  have alls: "list_all (\<lambda>(nid, l). recognized (Membership l)) xs
      = list_all (\<lambda>(nid, l). recognized (Membership l)) ys"
    using assms(3) by (simp add: list_all_iff)
  show ?thesis
    using BuildIsLiveMap_eq [OF assms(1), of now] BuildIsLiveMap_eq [OF assms(2), of now]
      maps alls
    by simp
qed

theorem BuildIsLiveMap_deterministic_witness:
  "distinct (map fst
     [(1 :: int32, \<lparr>NodeID = 1, Epoch = 1, Expiration = \<lparr>WallTime = 200, Logical = 0\<rparr>,
          Draining = False, Membership = MembershipStatus_ACTIVE\<rparr>),
      (2, \<lparr>NodeID = 2, Epoch = 4, Expiration = \<lparr>WallTime = 100, Logical = 0\<rparr>,
          Draining = True, Membership = MembershipStatus_DECOMMISSIONING\<rparr>)])
   \<and> distinct (map fst
     [(2 :: int32, \<lparr>NodeID = 2, Epoch = 4, Expiration = \<lparr>WallTime = 100, Logical = 0\<rparr>,
          Draining = True, Membership = MembershipStatus_DECOMMISSIONING\<rparr>),
      (1, \<lparr>NodeID = 1, Epoch = 1, Expiration = \<lparr>WallTime = 200, Logical = 0\<rparr>,
          Draining = False, Membership = MembershipStatus_ACTIVE\<rparr>)])
   \<and> set [(1 :: int32, \<lparr>NodeID = 1, Epoch = 1, Expiration = \<lparr>WallTime = 200, Logical = 0\<rparr>,
          Draining = False, Membership = MembershipStatus_ACTIVE\<rparr>),
      (2, \<lparr>NodeID = 2, Epoch = 4, Expiration = \<lparr>WallTime = 100, Logical = 0\<rparr>,
          Draining = True, Membership = MembershipStatus_DECOMMISSIONING\<rparr>)]
     = set [(2 :: int32, \<lparr>NodeID = 2, Epoch = 4, Expiration = \<lparr>WallTime = 100, Logical = 0\<rparr>,
          Draining = True, Membership = MembershipStatus_DECOMMISSIONING\<rparr>),
      (1, \<lparr>NodeID = 1, Epoch = 1, Expiration = \<lparr>WallTime = 200, Logical = 0\<rparr>,
          Draining = False, Membership = MembershipStatus_ACTIVE\<rparr>)]
   \<and> BuildIsLiveMap
       [(1 :: int32, \<lparr>NodeID = 1, Epoch = 1, Expiration = \<lparr>WallTime = 200, Logical = 0\<rparr>,
          Draining = False, Membership = MembershipStatus_ACTIVE\<rparr>),
      (2, \<lparr>NodeID = 2, Epoch = 4, Expiration = \<lparr>WallTime = 100, Logical = 0\<rparr>,
          Draining = True, Membership = MembershipStatus_DECOMMISSIONING\<rparr>)]
       \<lparr>WallTime = 150, Logical = 0\<rparr>
     = BuildIsLiveMap
       [(2 :: int32, \<lparr>NodeID = 2, Epoch = 4, Expiration = \<lparr>WallTime = 100, Logical = 0\<rparr>,
          Draining = True, Membership = MembershipStatus_DECOMMISSIONING\<rparr>),
      (1, \<lparr>NodeID = 1, Epoch = 1, Expiration = \<lparr>WallTime = 200, Logical = 0\<rparr>,
          Draining = False, Membership = MembershipStatus_ACTIVE\<rparr>)]
       \<lparr>WallTime = 150, Logical = 0\<rparr>
   \<and> BuildIsLiveMap
       [(1 :: int32, \<lparr>NodeID = 1, Epoch = 1, Expiration = \<lparr>WallTime = 200, Logical = 0\<rparr>,
          Draining = False, Membership = MembershipStatus_ACTIVE\<rparr>),
      (2, \<lparr>NodeID = 2, Epoch = 4, Expiration = \<lparr>WallTime = 100, Logical = 0\<rparr>,
          Draining = True, Membership = MembershipStatus_DECOMMISSIONING\<rparr>)]
       \<lparr>WallTime = 150, Logical = 0\<rparr>
     = Some [(1 :: int32) \<mapsto> \<lparr>EntryLiveness = \<lparr>NodeID = 1, Epoch = 1, Expiration = \<lparr>WallTime = 200, Logical = 0\<rparr>,
          Draining = False, Membership = MembershipStatus_ACTIVE\<rparr>,
                      EntryIsLive = True\<rparr>,
             2 \<mapsto> \<lparr>EntryLiveness = \<lparr>NodeID = 2, Epoch = 4, Expiration = \<lparr>WallTime = 100, Logical = 0\<rparr>,
          Draining = True, Membership = MembershipStatus_DECOMMISSIONING\<rparr>,
                      EntryIsLive = False\<rparr>]"
proof -
  have h1: "distinct (map fst
     [(1 :: int32, \<lparr>NodeID = 1, Epoch = 1, Expiration = \<lparr>WallTime = 200, Logical = 0\<rparr>,
          Draining = False, Membership = MembershipStatus_ACTIVE\<rparr>),
      (2, \<lparr>NodeID = 2, Epoch = 4, Expiration = \<lparr>WallTime = 100, Logical = 0\<rparr>,
          Draining = True, Membership = MembershipStatus_DECOMMISSIONING\<rparr>)])"
    by simp
  have h2: "distinct (map fst
     [(2 :: int32, \<lparr>NodeID = 2, Epoch = 4, Expiration = \<lparr>WallTime = 100, Logical = 0\<rparr>,
          Draining = True, Membership = MembershipStatus_DECOMMISSIONING\<rparr>),
      (1, \<lparr>NodeID = 1, Epoch = 1, Expiration = \<lparr>WallTime = 200, Logical = 0\<rparr>,
          Draining = False, Membership = MembershipStatus_ACTIVE\<rparr>)])"
    by simp
  have h3: "set [(1 :: int32, \<lparr>NodeID = 1, Epoch = 1, Expiration = \<lparr>WallTime = 200, Logical = 0\<rparr>,
          Draining = False, Membership = MembershipStatus_ACTIVE\<rparr>),
      (2, \<lparr>NodeID = 2, Epoch = 4, Expiration = \<lparr>WallTime = 100, Logical = 0\<rparr>,
          Draining = True, Membership = MembershipStatus_DECOMMISSIONING\<rparr>)]
     = set [(2 :: int32, \<lparr>NodeID = 2, Epoch = 4, Expiration = \<lparr>WallTime = 100, Logical = 0\<rparr>,
          Draining = True, Membership = MembershipStatus_DECOMMISSIONING\<rparr>),
      (1, \<lparr>NodeID = 1, Epoch = 1, Expiration = \<lparr>WallTime = 200, Logical = 0\<rparr>,
          Draining = False, Membership = MembershipStatus_ACTIVE\<rparr>)]"
    by auto
  note det = BuildIsLiveMap_deterministic [OF h1 h2 h3, of "\<lparr>WallTime = 150, Logical = 0\<rparr>"]
  have e1: "BuildIsLiveMap
       [(1 :: int32, \<lparr>NodeID = 1, Epoch = 1, Expiration = \<lparr>WallTime = 200, Logical = 0\<rparr>,
          Draining = False, Membership = MembershipStatus_ACTIVE\<rparr>),
      (2 :: int32, \<lparr>NodeID = 2, Epoch = 4, Expiration = \<lparr>WallTime = 100, Logical = 0\<rparr>,
          Draining = True, Membership = MembershipStatus_DECOMMISSIONING\<rparr>)]
       \<lparr>WallTime = 150, Logical = 0\<rparr>
     = BuildIsLiveMap
       [(2 :: int32, \<lparr>NodeID = 2, Epoch = 4, Expiration = \<lparr>WallTime = 100, Logical = 0\<rparr>,
          Draining = True, Membership = MembershipStatus_DECOMMISSIONING\<rparr>),
      (1 :: int32, \<lparr>NodeID = 1, Epoch = 1, Expiration = \<lparr>WallTime = 200, Logical = 0\<rparr>,
          Draining = False, Membership = MembershipStatus_ACTIVE\<rparr>)]
       \<lparr>WallTime = 150, Logical = 0\<rparr>"
    using det by (rule conjunct1)
  have e2: "BuildIsLiveMap
       [(1 :: int32, \<lparr>NodeID = 1, Epoch = 1, Expiration = \<lparr>WallTime = 200, Logical = 0\<rparr>,
          Draining = False, Membership = MembershipStatus_ACTIVE\<rparr>),
      (2 :: int32, \<lparr>NodeID = 2, Epoch = 4, Expiration = \<lparr>WallTime = 100, Logical = 0\<rparr>,
          Draining = True, Membership = MembershipStatus_DECOMMISSIONING\<rparr>)]
       \<lparr>WallTime = 150, Logical = 0\<rparr>
     = Some (\<lambda>nid. map_option
          (\<lambda>l. \<lparr>EntryLiveness = l, EntryIsLive = IsLive l \<lparr>WallTime = 150, Logical = 0\<rparr>\<rparr>)
          (map_of
             [(1 :: int32, \<lparr>NodeID = 1, Epoch = 1, Expiration = \<lparr>WallTime = 200, Logical = 0\<rparr>,
          Draining = False, Membership = MembershipStatus_ACTIVE\<rparr>),
      (2 :: int32, \<lparr>NodeID = 2, Epoch = 4, Expiration = \<lparr>WallTime = 100, Logical = 0\<rparr>,
          Draining = True, Membership = MembershipStatus_DECOMMISSIONING\<rparr>)] nid))"
    using det [THEN conjunct2] by (simp add: recognized_iff status_defs)
  have e3: "(\<lambda>nid. map_option
          (\<lambda>l. \<lparr>EntryLiveness = l, EntryIsLive = IsLive l \<lparr>WallTime = 150, Logical = 0\<rparr>\<rparr>)
          (map_of
             [(1 :: int32, \<lparr>NodeID = 1, Epoch = 1, Expiration = \<lparr>WallTime = 200, Logical = 0\<rparr>,
          Draining = False, Membership = MembershipStatus_ACTIVE\<rparr>),
      (2 :: int32, \<lparr>NodeID = 2, Epoch = 4, Expiration = \<lparr>WallTime = 100, Logical = 0\<rparr>,
          Draining = True, Membership = MembershipStatus_DECOMMISSIONING\<rparr>)] nid))
     = [(1 :: int32) \<mapsto> \<lparr>EntryLiveness = \<lparr>NodeID = 1, Epoch = 1, Expiration = \<lparr>WallTime = 200, Logical = 0\<rparr>,
          Draining = False, Membership = MembershipStatus_ACTIVE\<rparr>,
                      EntryIsLive = True\<rparr>,
             2 \<mapsto> \<lparr>EntryLiveness = \<lparr>NodeID = 2, Epoch = 4, Expiration = \<lparr>WallTime = 100, Logical = 0\<rparr>,
          Draining = True, Membership = MembershipStatus_DECOMMISSIONING\<rparr>,
                      EntryIsLive = False\<rparr>]"
    by (auto simp: fun_eq_iff IsLive_def Less_def ToTimestamp_def)
  from h1 h2 h3 e1 e2 [unfolded e3] show ?thesis
    by (intro conjI)
qed

end
